theory Spec2Isabelle
  imports Complex_Main "HOL-Library.AList"
begin

section \<open>Numbers, vectors and shared containers\<close>

text \<open>
  The scene code computes on JavaScript numbers. They are modelled by \<^typ>\<open>real\<close>: every
  arithmetic step of the source is taken exactly, so rounding, NaN and the infinities of
  IEEE doubles are outside this development. Counters that the source only increments from
  zero are \<^typ>\<open>nat\<close>, grid coordinates (results of \<^verbatim>\<open>Math.floor\<close>) are \<^typ>\<open>int\<close>.
\<close>

datatype vec3 = Vector3 (vec_x: real) (vec_y: real) (vec_z: real)

definition vec_add :: "vec3 \<Rightarrow> vec3 \<Rightarrow> vec3" where
  "vec_add a b = Vector3 (vec_x a + vec_x b) (vec_y a + vec_y b) (vec_z a + vec_z b)"

definition vec_sub :: "vec3 \<Rightarrow> vec3 \<Rightarrow> vec3" where
  "vec_sub a b = Vector3 (vec_x a - vec_x b) (vec_y a - vec_y b) (vec_z a - vec_z b)"

definition multiplyScalar :: "vec3 \<Rightarrow> real \<Rightarrow> vec3" where
  "multiplyScalar a s = Vector3 (vec_x a * s) (vec_y a * s) (vec_z a * s)"

definition set_y :: "vec3 \<Rightarrow> real \<Rightarrow> vec3" where
  "set_y a h = Vector3 (vec_x a) h (vec_z a)"

text \<open>
  \<^verbatim>\<open>Vector3.setFromSpherical(new Spherical(radius, phi, theta))\<close> of three.js:
  \<^verbatim>\<open>x = radius sin(phi) sin(theta)\<close>, \<^verbatim>\<open>y = radius cos(phi)\<close>,
  \<^verbatim>\<open>z = radius sin(phi) cos(theta)\<close>.
\<close>

definition setFromSpherical :: "real \<Rightarrow> real \<Rightarrow> real \<Rightarrow> vec3" where
  "setFromSpherical r phi theta =
     Vector3 (sin phi * r * sin theta) (cos phi * r) (sin phi * r * cos theta)"

text \<open>
  A grid cell. The source keys its maps by the string \<^verbatim>\<open>`${x},${z}`\<close> of two integral
  numbers and reads the pair back with \<^verbatim>\<open>key.split(',').map(Number)\<close>; the pair itself
  is the key here.
\<close>

type_synonym cell = "int \<times> int"

text \<open>
  A JavaScript \<^verbatim>\<open>Map\<close> is an association list in insertion order: \<^verbatim>\<open>set\<close> replaces the
  value in place or appends, \<^verbatim>\<open>delete\<close> removes the entry, \<^verbatim>\<open>entries()\<close> walks the list.
\<close>

definition map_has :: "'k \<Rightarrow> ('k \<times> 'v) list \<Rightarrow> bool" where
  "map_has k m = (k \<in> fst ` set m)"

definition map_set :: "'k \<Rightarrow> 'v \<Rightarrow> ('k \<times> 'v) list \<Rightarrow> ('k \<times> 'v) list" where
  "map_set k v m = AList.update k v m"

definition map_delete :: "'k \<Rightarrow> ('k \<times> 'v) list \<Rightarrow> ('k \<times> 'v) list" where
  "map_delete k m = AList.delete k m"

text \<open>The 5 by 5 block of cells visited by the two nested \<^verbatim>\<open>for\<close> loops, in loop order.\<close>

definition window :: "int \<Rightarrow> int \<Rightarrow> cell list" where
  "window gx gz = concat (map (\<lambda>x. map (\<lambda>z. (x, z)) [gz - 2..gz + 2]) [gx - 2..gx + 2])"

text \<open>The test of both eviction loops: \<^verbatim>\<open>Math.abs(x - gridX) > 3 || Math.abs(z - gridZ) > 3\<close>.\<close>

definition too_far :: "int \<Rightarrow> int \<Rightarrow> cell \<Rightarrow> bool" where
  "too_far gx gz key = (case key of (x, z) \<Rightarrow> \<bar>x - gx\<bar> > 3 \<or> \<bar>z - gz\<bar> > 3)"

text \<open>
  The eviction loop \<^verbatim>\<open>for (const [key, v] of m.entries()) if (far) m.delete(key)\<close>: the
  entries present when the loop starts are visited in order, and deleting the visited entry
  does not disturb the walk.
\<close>

definition evict :: "int \<Rightarrow> int \<Rightarrow> (cell \<times> 'v) list \<Rightarrow> (cell \<times> 'v) list" where
  "evict gx gz m = fold (\<lambda>e acc. if too_far gx gz (fst e) then map_delete (fst e) acc else acc) m m"

text \<open>
  \<^verbatim>\<open>Math.random()\<close> is a supply of numbers read one after the other: \<open>draws\<close> is the
  sequence the runtime would produce and \<open>drawn\<close> counts the calls made so far.
\<close>

record rng =
  draws :: "nat \<Rightarrow> real"
  drawn :: nat

definition Math_random :: "rng \<Rightarrow> real \<times> rng" where
  "Math_random g = (draws g (drawn g), g\<lparr>drawn := Suc (drawn g)\<rparr>)"

section \<open>InfiniteGround\<close>

record tile =
  tile_position :: vec3

record InfiniteGround =
  tiles :: "(cell \<times> tile) list"

definition new_InfiniteGround :: InfiniteGround where
  "new_InfiniteGround = \<lparr>tiles = []\<rparr>"

definition tileSize :: real where
  "tileSize = 40"

definition createTile :: "int \<Rightarrow> int \<Rightarrow> tile" where
  "createTile x z = \<lparr>tile_position = Vector3 (real_of_int x * tileSize) 0 (real_of_int z * tileSize)\<rparr>"

definition ground_cell :: "cell \<Rightarrow> InfiniteGround \<Rightarrow> InfiniteGround" where
  "ground_cell key g =
     (if \<not> map_has key (tiles g)
      then g\<lparr>tiles := map_set key (createTile (fst key) (snd key)) (tiles g)\<rparr>
      else g)"

definition InfiniteGround_update :: "InfiniteGround \<Rightarrow> vec3 \<Rightarrow> InfiniteGround" where
  "InfiniteGround_update g playerPosition =
     (let tileX = \<lfloor>vec_x playerPosition / tileSize\<rfloor>;
          tileZ = \<lfloor>vec_z playerPosition / tileSize\<rfloor>;
          g1 = fold ground_cell (window tileX tileZ) g
      in g1\<lparr>tiles := evict tileX tileZ (tiles g1)\<rparr>)"

section \<open>BuildingSystem\<close>

record mesh =
  mesh_position :: vec3
  mesh_rotation_y :: real
  mesh_scale :: real

record collision_box =
  box_position :: vec3
  box_width :: real
  box_height :: real
  box_depth :: real
  box_rotation_y :: real

record building_data =
  building :: mesh
  collisionBox :: collision_box
  buildingIndex :: nat

text \<open>
  \<open>buildingModels\<close> is the length of the array of loaded prefabs: 0 until
  \<^verbatim>\<open>loadBuildingModel\<close> has finished, 2 afterwards.
\<close>

record BuildingSystem =
  buildings :: "(cell \<times> building_data) list"
  buildingModels :: nat
  loadedCells :: "cell set"

definition new_BuildingSystem :: BuildingSystem where
  "new_BuildingSystem = \<lparr>buildings = [], buildingModels = 0, loadedCells = {}\<rparr>"

definition gridSize :: real where
  "gridSize = 25"

definition buildingSpacing :: real where
  "buildingSpacing = 12"

definition buildingChance :: real where
  "buildingChance = 0.8"

definition createBuilding :: "BuildingSystem \<Rightarrow> int \<Rightarrow> int \<Rightarrow> rng \<Rightarrow> building_data option \<times> rng" where
  "createBuilding bs x z g =
     (if buildingModels bs = 0 then (None, g)
      else
        let (r1, g1) = Math_random g;
            index = nat \<lfloor>r1 * real (buildingModels bs)\<rfloor>;
            (r2, g2) = Math_random g1;
            rotation = real_of_int \<lfloor>r2 * 4\<rfloor> * (pi / 2);
            baseScale = 25;
            (r3, g3) = Math_random g2;
            scaleVar = 0.9 + r3 * 0.2;
            finalScale = baseScale * scaleVar;
            (r4, g4) = Math_random g3;
            offsetX = (r4 - 0.5) * (gridSize - buildingSpacing);
            (r5, g5) = Math_random g4;
            offsetZ = (r5 - 0.5) * (gridSize - buildingSpacing);
            buildingHeight = (if index = 1 then 6.8 else 6.47);
            buildingPosition =
              Vector3 (real_of_int x * gridSize + offsetX) buildingHeight
                (real_of_int z * gridSize + offsetZ);
            boxSize = finalScale * 0.8;
            boxHeight = (if index = 1 then boxSize * 1.4 else boxSize * 1.2)
        in (Some \<lparr>building =
                    \<lparr>mesh_position = buildingPosition, mesh_rotation_y = rotation,
                     mesh_scale = finalScale\<rparr>,
                  collisionBox =
                    \<lparr>box_position = buildingPosition, box_width = boxSize,
                     box_height = boxHeight, box_depth = boxSize, box_rotation_y = rotation\<rparr>,
                  buildingIndex = index\<rparr>, g5))"

text \<open>The body of the \<^verbatim>\<open>for\<close> loop of \<^verbatim>\<open>checkCollision\<close> for one entry of the map.\<close>

definition too_close :: "vec3 \<Rightarrow> real \<Rightarrow> building_data \<Rightarrow> bool" where
  "too_close playerPosition playerRadius b =
     (let buildingPosition = box_position (collisionBox b);
          buildingSize = box_width (collisionBox b) / 2;
          dx = vec_x playerPosition - vec_x buildingPosition;
          dz = vec_z playerPosition - vec_z buildingPosition;
          distance = sqrt (dx * dx + dz * dz);
          collisionBuffer = (if buildingIndex b = 1 then 0.5 else 0.02)
      in distance < buildingSize + playerRadius + collisionBuffer)"

fun checkCollision_loop :: "(cell \<times> building_data) list \<Rightarrow> vec3 \<Rightarrow> real \<Rightarrow> bool" where
  "checkCollision_loop [] playerPosition playerRadius = False"
| "checkCollision_loop (e # es) playerPosition playerRadius =
     (if too_close playerPosition playerRadius (snd e) then True
      else checkCollision_loop es playerPosition playerRadius)"

definition checkCollision :: "BuildingSystem \<Rightarrow> vec3 \<Rightarrow> real \<Rightarrow> bool" where
  "checkCollision bs playerPosition playerRadius =
     checkCollision_loop (buildings bs) playerPosition playerRadius"

text \<open>The body of the two nested loops of \<^verbatim>\<open>BuildingSystem.update\<close> for the cell \<open>key\<close>.\<close>

definition building_cell :: "cell \<Rightarrow> BuildingSystem \<times> rng \<Rightarrow> BuildingSystem \<times> rng" where
  "building_cell key s =
     (case s of (bs, g) \<Rightarrow>
        if key \<notin> loadedCells bs \<and> \<not> map_has key (buildings bs) then
          let bs1 = bs\<lparr>loadedCells := insert key (loadedCells bs)\<rparr>;
              (r, g1) = Math_random g
          in if r < buildingChance then
               let x = fst key; z = snd key;
                   distanceFromOrigin = sqrt (real_of_int (x * x + z * z))
               in if distanceFromOrigin > 0.3 then
                    (case createBuilding bs1 x z g1 of
                       (Some buildingData, g2) \<Rightarrow>
                         (bs1\<lparr>buildings := map_set key buildingData (buildings bs1)\<rparr>, g2)
                     | (None, g2) \<Rightarrow> (bs1, g2))
                  else (bs1, g1)
             else (bs1, g1)
        else (bs, g))"

definition BuildingSystem_update :: "BuildingSystem \<times> rng \<Rightarrow> vec3 \<Rightarrow> BuildingSystem \<times> rng" where
  "BuildingSystem_update s playerPosition =
     (let gridX = \<lfloor>vec_x playerPosition / gridSize\<rfloor>;
          gridZ = \<lfloor>vec_z playerPosition / gridSize\<rfloor>;
          (bs1, g1) = fold building_cell (window gridX gridZ) s
      in (bs1\<lparr>buildings := evict gridX gridZ (buildings bs1)\<rparr>, g1))"

text \<open>A session: the calls of \<^verbatim>\<open>update\<close> made for a sequence of player positions.\<close>

definition BuildingSystem_updates :: "BuildingSystem \<times> rng \<Rightarrow> vec3 list \<Rightarrow> BuildingSystem \<times> rng" where
  "BuildingSystem_updates s ps = fold (\<lambda>p acc. BuildingSystem_update acc p) ps s"

section \<open>PlayerCharacter\<close>

text \<open>
  Reading a property of \<^verbatim>\<open>null\<close> throws a \<^verbatim>\<open>TypeError\<close>; a method that may do so
  returns \<open>Inl TypeError\<close> in that case and \<open>Inr\<close> of the new state otherwise.
\<close>

datatype error = TypeError

definition and_then :: "error + 'a \<Rightarrow> ('a \<Rightarrow> error + 'b) \<Rightarrow> error + 'b" where
  "and_then r f = (case r of Inl e \<Rightarrow> Inl e | Inr v \<Rightarrow> f v)"

text \<open>The keys of \<^verbatim>\<open>this.animations\<close>: \<^verbatim>\<open>'idle'\<close>, \<^verbatim>\<open>'run'\<close>, \<^verbatim>\<open>'walk'\<close>, \<^verbatim>\<open>'jump'\<close>.\<close>

datatype animation = Idle | Run | Walk | Jump

record model3d =
  model_position :: vec3
  model_rotation_y :: real

text \<open>
  \<open>animations\<close> holds the names for which \<^verbatim>\<open>load\<close> stored a clip action, and
  \<open>currentAction\<close> names the action that is playing (\<open>None\<close> is \<^verbatim>\<open>null\<close>). The
  animation mixer and the playback state of the actions belong to three.js and feed only the
  renderer. The constructor's parameters that no method assigns are constants below.
\<close>

record PlayerCharacter =
  model :: "model3d option"
  animations :: "animation set"
  currentAction :: "animation option"
  position :: vec3
  rotation_y :: real
  isMoving :: bool
  isJumping :: bool
  pendingMove :: real
  jumpVelocity :: vec3
  jumpDuration :: nat

definition moveSpeed :: real where
  "moveSpeed = 0.15"

definition walkSpeed :: real where
  "walkSpeed = 0.032"

definition rotateSpeed :: real where
  "rotateSpeed = 0.015"

definition radius :: real where
  "radius = 1.5"

definition jumpSpeed :: real where
  "jumpSpeed = 0.19"

definition jumpForwardSpeed :: real where
  "jumpForwardSpeed = 0.35"

definition gravity :: real where
  "gravity = 0.006"

definition maxJumpDuration :: nat where
  "maxJumpDuration = 90"

definition landingHeight :: real where
  "landingHeight = 2"

definition new_PlayerCharacter :: PlayerCharacter where
  "new_PlayerCharacter =
     \<lparr>model = None, animations = {}, currentAction = None, position = Vector3 0 2 0,
      rotation_y = 0, isMoving = False, isJumping = False, pendingMove = 0,
      jumpVelocity = Vector3 0 0 0, jumpDuration = 0\<rparr>"

text \<open>
  A successful \<^verbatim>\<open>load\<close>; \<open>clips\<close> names the files that came with an animation
  (\<^verbatim>\<open>m.animations && m.animations.length > 0\<close>).
\<close>

definition load :: "animation set \<Rightarrow> PlayerCharacter \<Rightarrow> PlayerCharacter" where
  "load clips p =
     p\<lparr>model := Some \<lparr>model_position = position p, model_rotation_y = 0\<rparr>,
       animations := clips,
       currentAction := (if Idle \<in> clips then Some Idle else None)\<rparr>"

text \<open>\<^verbatim>\<open>this.buildingSystem?.checkCollision(p, r)\<close>, whose absent result counts as false.\<close>

definition collides :: "BuildingSystem option \<Rightarrow> vec3 \<Rightarrow> real \<Rightarrow> bool" where
  "collides bsys pt r = (case bsys of None \<Rightarrow> False | Some bs \<Rightarrow> checkCollision bs pt r)"

text \<open>\<^verbatim>\<open>this.model.position.copy(this.position)\<close>\<close>

definition copy_to_model :: "PlayerCharacter \<Rightarrow> error + PlayerCharacter" where
  "copy_to_model p =
     (case model p of
        None \<Rightarrow> Inl TypeError
      | Some m \<Rightarrow> Inr (p\<lparr>model := Some (m\<lparr>model_position := position p\<rparr>)\<rparr>))"

text \<open>\<^verbatim>\<open>this.position.y = h; this.model.position.y = h\<close>\<close>

definition snap_height :: "real \<Rightarrow> PlayerCharacter \<Rightarrow> error + PlayerCharacter" where
  "snap_height h p =
     (case model p of
        None \<Rightarrow> Inl TypeError
      | Some m \<Rightarrow>
          Inr (p\<lparr>position := set_y (position p) h,
                 model := Some (m\<lparr>model_position := set_y (model_position m) h\<rparr>)\<rparr>))"

definition updatePosition :: "BuildingSystem option \<Rightarrow> PlayerCharacter \<Rightarrow> error + PlayerCharacter" where
  "updatePosition bsys p =
     (let speed = (if pendingMove p > 0 then moveSpeed else walkSpeed);
          moveVector = setFromSpherical speed (pi / 2) (rotation_y p);
          newPosition =
            set_y (vec_add (position p) (multiplyScalar moveVector (pendingMove p)))
              (vec_y (position p))
      in if \<not> collides bsys newPosition radius
         then copy_to_model (p\<lparr>position := newPosition\<rparr>)
         else Inr p)"

definition move :: "BuildingSystem option \<Rightarrow> real \<Rightarrow> PlayerCharacter \<Rightarrow> error + PlayerCharacter" where
  "move bsys direction p =
     (if model p = None then Inr p
      else
        let p1 = p\<lparr>pendingMove := direction\<rparr>
        in if isMoving p1 then updatePosition bsys p1 else Inr p1)"

definition PlayerCharacter_rotate :: "real \<Rightarrow> PlayerCharacter \<Rightarrow> PlayerCharacter" where
  "PlayerCharacter_rotate direction p =
     (case model p of
        None \<Rightarrow> p
      | Some m \<Rightarrow>
          let ry = rotation_y p + direction * rotateSpeed
          in p\<lparr>rotation_y := ry, model := Some (m\<lparr>model_rotation_y := ry\<rparr>)\<rparr>)"

definition setAnimation :: "BuildingSystem option \<Rightarrow> animation \<Rightarrow> PlayerCharacter \<Rightarrow> error + PlayerCharacter" where
  "setAnimation bsys animationName p =
     (if animationName \<notin> animations p \<or> currentAction p = None then Inr p
      else if currentAction p = Some animationName then Inr p
      else
        let p1 = p\<lparr>isMoving := (animationName = Run \<or> animationName = Walk)\<rparr>
        in and_then
             (if isMoving p1 \<and> pendingMove p1 \<noteq> 0 then updatePosition bsys p1 else Inr p1)
             (\<lambda>p2. Inr (p2\<lparr>currentAction := Some animationName\<rparr>)))"

definition jump :: "BuildingSystem option \<Rightarrow> PlayerCharacter \<Rightarrow> error + PlayerCharacter" where
  "jump bsys p =
     (if \<not> isJumping p then
        and_then (setAnimation bsys Jump (p\<lparr>isJumping := True, jumpDuration := 0\<rparr>))
          (\<lambda>p1. Inr (p1\<lparr>jumpVelocity := Vector3 0 jumpSpeed 0\<rparr>))
      else Inr p)"

text \<open>
  \<^verbatim>\<open>update\<close>, airborne branch, up to the collision test: the tick counter, gravity, and the
  candidate position \<open>jump_candidate\<close> (\<^verbatim>\<open>newPosition\<close>).
\<close>

definition jump_advance :: "PlayerCharacter \<Rightarrow> PlayerCharacter" where
  "jump_advance p =
     (let p1 = p\<lparr>jumpDuration := jumpDuration p + 1\<rparr>
      in p1\<lparr>jumpVelocity := set_y (jumpVelocity p1) (vec_y (jumpVelocity p1) - gravity)\<rparr>)"

definition jump_candidate :: "PlayerCharacter \<Rightarrow> vec3" where
  "jump_candidate p =
     (let p2 = jump_advance p;
          lifted = set_y (position p2) (vec_y (position p2) + vec_y (jumpVelocity p2));
          jumpProgress = real (jumpDuration p2) / real maxJumpDuration;
          currentForwardSpeed = jumpForwardSpeed * (1 - jumpProgress * 0.7);
          forwardVector = setFromSpherical currentForwardSpeed (pi / 2) (rotation_y p2)
      in vec_add lifted forwardVector)"

text \<open>The \<^verbatim>\<open>if (!checkCollision) ... else ...\<close> of the airborne branch.\<close>

definition jump_commit :: "BuildingSystem option \<Rightarrow> PlayerCharacter \<Rightarrow> error + PlayerCharacter" where
  "jump_commit bsys p =
     (let p2 = jump_advance p; newPosition = jump_candidate p
      in if \<not> collides bsys newPosition radius
         then copy_to_model (p2\<lparr>position := newPosition\<rparr>)
         else
           and_then
             (snap_height landingHeight
                (p2\<lparr>jumpVelocity := set_y (jumpVelocity p2) (- vec_y (jumpVelocity p2) * 0.5),
                    isJumping := False, jumpDuration := 0\<rparr>))
             (\<lambda>p3. setAnimation bsys (if isMoving p3 then Run else Idle) p3))"

text \<open>The closing \<^verbatim>\<open>if (landed or hit max duration)\<close> of the airborne branch.\<close>

definition jump_landing :: "BuildingSystem option \<Rightarrow> PlayerCharacter \<Rightarrow> error + PlayerCharacter" where
  "jump_landing bsys p =
     (if vec_y (position p) \<le> landingHeight \<or> jumpDuration p \<ge> maxJumpDuration then
        and_then (snap_height landingHeight p)
          (\<lambda>p1. setAnimation bsys (if isMoving p1 then Run else Idle)
                   (p1\<lparr>isJumping := False, jumpDuration := 0\<rparr>))
      else Inr p)"

definition PlayerCharacter_update :: "BuildingSystem option \<Rightarrow> real \<Rightarrow> PlayerCharacter \<Rightarrow> error + PlayerCharacter" where
  "PlayerCharacter_update bsys deltaTime p =
     (if isJumping p then and_then (jump_commit bsys p) (jump_landing bsys) else Inr p)"

section \<open>InputController\<close>

record InputController =
  key_forward :: bool
  key_backward :: bool
  key_left :: bool
  key_right :: bool
  key_jump :: bool
  jumpPressed :: bool

datatype key_code = KeyW | KeyS | KeyA | KeyD | Space | OtherKey

definition new_InputController :: InputController where
  "new_InputController =
     \<lparr>key_forward = False, key_backward = False, key_left = False, key_right = False,
      key_jump = False, jumpPressed = False\<rparr>"

fun onKeyDown :: "key_code \<Rightarrow> InputController \<Rightarrow> InputController" where
  "onKeyDown KeyW ic = ic\<lparr>key_forward := True\<rparr>"
| "onKeyDown KeyS ic = ic\<lparr>key_backward := True\<rparr>"
| "onKeyDown KeyA ic = ic\<lparr>key_left := True\<rparr>"
| "onKeyDown KeyD ic = ic\<lparr>key_right := True\<rparr>"
| "onKeyDown Space ic =
     (let ic1 = ic\<lparr>key_jump := True\<rparr>
      in if \<not> jumpPressed ic1 then ic1\<lparr>jumpPressed := True\<rparr> else ic1)"
| "onKeyDown OtherKey ic = ic"

fun onKeyUp :: "key_code \<Rightarrow> InputController \<Rightarrow> InputController" where
  "onKeyUp KeyW ic = ic\<lparr>key_forward := False\<rparr>"
| "onKeyUp KeyS ic = ic\<lparr>key_backward := False\<rparr>"
| "onKeyUp KeyA ic = ic\<lparr>key_left := False\<rparr>"
| "onKeyUp KeyD ic = ic\<lparr>key_right := False\<rparr>"
| "onKeyUp Space ic = ic\<lparr>key_jump := False, jumpPressed := False\<rparr>"
| "onKeyUp OtherKey ic = ic"

definition InputController_update ::
  "BuildingSystem option \<Rightarrow> InputController \<times> PlayerCharacter \<Rightarrow> error + InputController \<times> PlayerCharacter" where
  "InputController_update bsys s =
     (case s of (ic, p) \<Rightarrow>
        and_then (if key_forward ic then move bsys 1 p else Inr p) (\<lambda>p1.
        and_then (if key_backward ic then move bsys (- 1) p1 else Inr p1) (\<lambda>p2.
        let p3 = (if key_left ic then PlayerCharacter_rotate 1 p2 else p2);
            p4 = (if key_right ic then PlayerCharacter_rotate (- 1) p3 else p3)
        in and_then
             (if key_jump ic \<and> jumpPressed ic \<and> \<not> isJumping p4
              then and_then (jump bsys p4) (\<lambda>p5. Inr (ic\<lparr>jumpPressed := False\<rparr>, p5))
              else Inr (ic, p4))
             (\<lambda>(ic1, p5).
                if \<not> isJumping p5 then
                  and_then
                    (if key_forward ic1 then setAnimation bsys Run p5
                     else if key_backward ic1 then setAnimation bsys Walk p5
                     else setAnimation bsys Idle p5)
                    (\<lambda>p6. Inr (ic1, p6))
                else Inr (ic1, p5)))))"

text \<open>
  The player's part of one frame of \<^verbatim>\<open>animate\<close>: the two calls are made only when the
  player's model is loaded.
\<close>

definition player_frame ::
  "BuildingSystem option \<Rightarrow> real \<Rightarrow> InputController \<times> PlayerCharacter \<Rightarrow> error + InputController \<times> PlayerCharacter" where
  "player_frame bsys deltaTime s =
     (if model (snd s) \<noteq> None then
        and_then (InputController_update bsys s)
          (\<lambda>(ic, p). and_then (PlayerCharacter_update bsys deltaTime p) (\<lambda>p1. Inr (ic, p1)))
      else Inr s)"

fun player_frames ::
  "nat \<Rightarrow> BuildingSystem option \<Rightarrow> real \<Rightarrow> InputController \<times> PlayerCharacter \<Rightarrow> error + InputController \<times> PlayerCharacter" where
  "player_frames 0 bsys deltaTime s = Inr s"
| "player_frames (Suc n) bsys deltaTime s =
     and_then (player_frame bsys deltaTime s) (player_frames n bsys deltaTime)"

section \<open>CameraController\<close>

record CameraController =
  camera_position :: vec3
  offset :: vec3
  smoothFactor :: real
  baseHeight :: real
  maxOffset :: vec3
  currentOffset :: vec3

definition new_CameraController :: "vec3 \<Rightarrow> CameraController" where
  "new_CameraController cam =
     \<lparr>camera_position = cam, offset = Vector3 0 3 8, smoothFactor = 0.1, baseHeight = 2,
      maxOffset = Vector3 0 5 12, currentOffset = Vector3 0 3 8\<rparr>"

definition vec_length :: "vec3 \<Rightarrow> real" where
  "vec_length a = sqrt (vec_x a * vec_x a + vec_y a * vec_y a + vec_z a * vec_z a)"

text \<open>\<^verbatim>\<open>Vector3.normalize\<close> of three.js divides by \<^verbatim>\<open>length() || 1\<close>.\<close>

definition normalize_vec :: "vec3 \<Rightarrow> vec3" where
  "normalize_vec a = multiplyScalar a (1 / (if vec_length a = 0 then 1 else vec_length a))"

definition distanceTo :: "vec3 \<Rightarrow> vec3 \<Rightarrow> real" where
  "distanceTo a b = vec_length (vec_sub a b)"

definition lerp :: "vec3 \<Rightarrow> vec3 \<Rightarrow> real \<Rightarrow> vec3" where
  "lerp a b alpha =
     Vector3 (vec_x a + (vec_x b - vec_x a) * alpha) (vec_y a + (vec_y b - vec_y a) * alpha)
       (vec_z a + (vec_z b - vec_z a) * alpha)"

text \<open>
  \<^verbatim>\<open>Raycaster.intersectObject\<close> is three.js code: \<open>cast origin direction box\<close> stands for
  the distances of the intersections it reports, nearest first.
\<close>

type_synonym raycast = "vec3 \<Rightarrow> vec3 \<Rightarrow> collision_box \<Rightarrow> real list"

fun checkCameraCollision_loop ::
  "raycast \<Rightarrow> vec3 \<Rightarrow> vec3 \<Rightarrow> real \<Rightarrow> (cell \<times> building_data) list \<Rightarrow> bool" where
  "checkCameraCollision_loop cast origin direction distance [] = False"
| "checkCameraCollision_loop cast origin direction distance (e # es) =
     (let intersects = cast origin direction (collisionBox (snd e))
      in if length intersects > 0 \<and> hd intersects < distance then True
         else checkCameraCollision_loop cast origin direction distance es)"

definition checkCameraCollision ::
  "raycast \<Rightarrow> BuildingSystem option \<Rightarrow> model3d \<Rightarrow> vec3 \<Rightarrow> bool" where
  "checkCameraCollision cast bsys target desiredPosition =
     (case bsys of
        None \<Rightarrow> False
      | Some bs \<Rightarrow>
          let direction = normalize_vec (vec_sub desiredPosition (model_position target));
              distance = distanceTo desiredPosition (model_position target)
          in checkCameraCollision_loop cast (model_position target) direction distance
               (buildings bs))"

definition camera_candidates :: "CameraController \<Rightarrow> vec3 list" where
  "camera_candidates c =
     [offset c, Vector3 0 4 10, Vector3 0 5 12, Vector3 0 3 6, Vector3 0 2 4]"

fun findSafe_loop ::
  "raycast \<Rightarrow> BuildingSystem option \<Rightarrow> model3d \<Rightarrow> vec3 \<Rightarrow> vec3 list \<Rightarrow> vec3 option" where
  "findSafe_loop cast bsys target targetPosition [] = None"
| "findSafe_loop cast bsys target targetPosition (off # offs) =
     (let testPosition = vec_add targetPosition off
      in if \<not> checkCameraCollision cast bsys target testPosition then Some off
         else findSafe_loop cast bsys target targetPosition offs)"

definition findSafeCameraPosition ::
  "raycast \<Rightarrow> BuildingSystem option \<Rightarrow> model3d \<Rightarrow> CameraController \<Rightarrow> vec3" where
  "findSafeCameraPosition cast bsys target c =
     (let targetPosition = set_y (model_position target) (baseHeight c)
      in case findSafe_loop cast bsys target targetPosition (camera_candidates c) of
           Some off \<Rightarrow> off
         | None \<Rightarrow> maxOffset c)"

definition CameraController_update ::
  "raycast \<Rightarrow> BuildingSystem option \<Rightarrow> model3d \<Rightarrow> CameraController \<Rightarrow> CameraController" where
  "CameraController_update cast bsys target c =
     (let targetPosition = set_y (model_position target) (baseHeight c);
          safeOffset = findSafeCameraPosition cast bsys target c;
          c1 = c\<lparr>currentOffset := lerp (currentOffset c) safeOffset (smoothFactor c)\<rparr>;
          desiredPosition = vec_add targetPosition (currentOffset c1)
      in c1\<lparr>camera_position := lerp (camera_position c1) desiredPosition (smoothFactor c1)\<rparr>)"

section \<open>Notions used to state the properties\<close>

text \<open>
  The words of the specification of \<^verbatim>\<open>checkCollision\<close>: the planar distance between a
  point and the centre of a building, and the distance below which the building is hit
  (half the width of its box, the radius, and a buffer of 0.5 for variant 1 and 0.02 for
  variant 0, the only two variants).
\<close>

definition planar_distance :: "vec3 \<Rightarrow> building_data \<Rightarrow> real" where
  "planar_distance pt b =
     sqrt ((vec_x pt - vec_x (box_position (collisionBox b)))\<^sup>2 +
           (vec_z pt - vec_z (box_position (collisionBox b)))\<^sup>2)"

definition collision_threshold :: "real \<Rightarrow> building_data \<Rightarrow> real" where
  "collision_threshold r b =
     box_width (collisionBox b) / 2 + r + (if buildingIndex b = 1 then 0.5 else 0.02)"

text \<open>The same city with the building of every cell \<open>k\<close> turned to the angle \<open>\<rho> k\<close>.\<close>

definition turned :: "(cell \<Rightarrow> real) \<Rightarrow> BuildingSystem \<Rightarrow> BuildingSystem" where
  "turned \<rho> bs =
     bs\<lparr>buildings :=
          map (\<lambda>e. (fst e,
                 (snd e)\<lparr>building := (building (snd e))\<lparr>mesh_rotation_y := \<rho> (fst e)\<rparr>,
                         collisionBox := (collisionBox (snd e))\<lparr>box_rotation_y := \<rho> (fst e)\<rparr>\<rparr>))
            (buildings bs)\<rparr>"

text \<open>
  What \<^verbatim>\<open>updatePosition\<close> and \<^verbatim>\<open>setAnimation\<close> leave alone: the model stays loaded, the
  jump state and the height are kept, and a position clear of every building stays clear.
\<close>

definition carried :: "BuildingSystem option \<Rightarrow> PlayerCharacter \<Rightarrow> PlayerCharacter \<Rightarrow> bool" where
  "carried bsys p p' \<longleftrightarrow>
     model p' \<noteq> None \<and> isJumping p' = isJumping p \<and> jumpDuration p' = jumpDuration p \<and>
     jumpVelocity p' = jumpVelocity p \<and> vec_y (position p') = vec_y (position p) \<and>
     (\<not> collides bsys (position p) radius \<longrightarrow> \<not> collides bsys (position p') radius)"

section \<open>Sample states\<close>

text \<open>
  Concrete states on which the properties below are exercised. \<open>sample_building\<close> is what
  \<^verbatim>\<open>createBuilding(1, 0)\<close> returns when \<^verbatim>\<open>Math.random()\<close> yields 0, 0, 0.5, 0.5, 0.5 (lemma
  \<open>sample_building_created\<close>). \<open>rising_player\<close> is the loaded player right after
  \<^verbatim>\<open>jump()\<close>, \<open>falling_player\<close> the same player 62 frames later and \<open>landed_player\<close>
  one frame after that; \<open>running_player\<close> has run forward for ten frames;
  \<open>blocked_player\<close> is in the air, heading along +x towards \<open>sample_building\<close>.
\<close>

definition sample_building :: building_data where
  "sample_building =
     \<lparr>building = \<lparr>mesh_position = Vector3 25 6.47 0, mesh_rotation_y = 0, mesh_scale = 25\<rparr>,
      collisionBox =
        \<lparr>box_position = Vector3 25 6.47 0, box_width = 20, box_height = 24, box_depth = 20,
         box_rotation_y = 0\<rparr>,
      buildingIndex = 0\<rparr>"

definition sample_city :: BuildingSystem where
  "sample_city =
     \<lparr>buildings = [((1, 0), sample_building)], buildingModels = 2, loadedCells = {(1, 0)}\<rparr>"

definition sample_rng :: rng where
  "sample_rng = \<lparr>draws = (\<lambda>n. if n < 2 then 0 else 0.5), drawn = 0\<rparr>"

definition sample_cast :: raycast where
  "sample_cast origin direction box = [1]"

definition jump_key_held :: InputController where
  "jump_key_held =
     \<lparr>key_forward = False, key_backward = False, key_left = False, key_right = False,
      key_jump = True, jumpPressed = False\<rparr>"

definition rising_player :: PlayerCharacter where
  "rising_player =
     \<lparr>model = Some \<lparr>model_position = Vector3 0 2 0, model_rotation_y = 0\<rparr>,
      animations = UNIV, currentAction = Some Jump, position = Vector3 0 2 0, rotation_y = 0,
      isMoving = False, isJumping = True, pendingMove = 0, jumpVelocity = Vector3 0 0.19 0,
      jumpDuration = 0\<rparr>"

definition falling_player :: PlayerCharacter where
  "falling_player =
     \<lparr>model = Some \<lparr>model_position = Vector3 0 2.062 16.3835, model_rotation_y = 0\<rparr>,
      animations = UNIV, currentAction = Some Jump, position = Vector3 0 2.062 16.3835,
      rotation_y = 0, isMoving = False, isJumping = True, pendingMove = 0,
      jumpVelocity = Vector3 0 (- 0.182) 0, jumpDuration = 62\<rparr>"

definition landed_player :: PlayerCharacter where
  "landed_player =
     \<lparr>model = Some \<lparr>model_position = Vector3 0 2 16.562, model_rotation_y = 0\<rparr>,
      animations = UNIV, currentAction = Some Idle, position = Vector3 0 2 16.562,
      rotation_y = 0, isMoving = False, isJumping = False, pendingMove = 0,
      jumpVelocity = Vector3 0 (- 0.188) 0, jumpDuration = 0\<rparr>"

definition running_player :: PlayerCharacter where
  "running_player =
     \<lparr>model = Some \<lparr>model_position = Vector3 0 2 1.5, model_rotation_y = 0\<rparr>,
      animations = UNIV, currentAction = Some Run, position = Vector3 0 2 1.5,
      rotation_y = 0, isMoving = True, isJumping = False, pendingMove = 1,
      jumpVelocity = Vector3 0 0 0, jumpDuration = 0\<rparr>"

definition blocked_player :: PlayerCharacter where
  "blocked_player =
     \<lparr>model = Some \<lparr>model_position = Vector3 13.3 5 0, model_rotation_y = pi / 2\<rparr>,
      animations = UNIV, currentAction = Some Jump, position = Vector3 13.3 5 0,
      rotation_y = pi / 2, isMoving = False, isJumping = True, pendingMove = 0,
      jumpVelocity = Vector3 0 0.13 0, jumpDuration = 10\<rparr>"

text \<open>The coordinates \<open>z\<close> reached by ten forward steps of \<^verbatim>\<open>moveSpeed\<close> from the origin.\<close>

definition forward_path :: "real list" where
  "forward_path = [0.15, 0.3, 0.45, 0.6, 0.75, 0.9, 1.05, 1.2, 1.35, 1.5]"

section \<open>Containers and streaming\<close>

lemma set_window:
  "set (window gx gz) = {(x, z). \<bar>x - gx\<bar> \<le> 2 \<and> \<bar>z - gz\<bar> \<le> 2}"
  by (fastforce simp: window_def)

lemma window_near: "c \<in> set (window gx gz) \<Longrightarrow> \<not> too_far gx gz c"
  by (auto simp: set_window too_far_def)

lemma evict_fold_filter:
  "fold (\<lambda>e acc. if too_far gx gz (fst e) then map_delete (fst e) acc else acc) xs acc =
   filter (\<lambda>e. \<not> (too_far gx gz (fst e) \<and> fst e \<in> fst ` set xs)) acc"
proof (induction xs arbitrary: acc)
  case Nil
  then show ?case by simp
next
  case (Cons x xs)
  show ?case
  proof (cases "too_far gx gz (fst x)")
    case True
    have "filter (\<lambda>e. \<not> (too_far gx gz (fst e) \<and> fst e \<in> fst ` set xs)) (map_delete (fst x) acc)
          = filter (\<lambda>e. \<not> (too_far gx gz (fst e) \<and> fst e \<in> fst ` set (x # xs))) acc"
      unfolding map_delete_def AList.delete_eq filter_filter
      by (rule filter_cong) (use True in auto)
    with True Cons.IH [of "map_delete (fst x) acc"] show ?thesis by simp
  next
    case False
    have "filter (\<lambda>e. \<not> (too_far gx gz (fst e) \<and> fst e \<in> fst ` set xs)) acc
          = filter (\<lambda>e. \<not> (too_far gx gz (fst e) \<and> fst e \<in> fst ` set (x # xs))) acc"
      by (rule filter_cong) (use False in auto)
    with False Cons.IH [of acc] show ?thesis by simp
  qed
qed

lemma evict_filter: "evict gx gz m = filter (\<lambda>e. \<not> too_far gx gz (fst e)) m"
  unfolding evict_def evict_fold_filter
  by (rule filter_cong) auto

lemma map_has_evict:
  "map_has k (evict gx gz m) \<longleftrightarrow> map_has k m \<and> \<not> too_far gx gz k"
  by (force simp: map_has_def evict_filter)

lemma evict_idem: "evict gx gz (evict gx gz m) = evict gx gz m"
  by (simp add: evict_filter)

lemma distinct_evict: "distinct (map fst m) \<Longrightarrow> distinct (map fst (evict gx gz m))"
  by (simp add: evict_filter distinct_map_filter)

lemma map_of_evict:
  "map_of (evict gx gz m) k = (if too_far gx gz k then None else map_of m k)"
  unfolding evict_filter by (induction m) auto

lemma map_has_map_set: "map_has k (map_set c v m) \<longleftrightarrow> k = c \<or> map_has k m"
  by (auto simp: map_has_def map_set_def AList.dom_update)

lemma map_has_map_of: "map_has k m \<longleftrightarrow> map_of m k \<noteq> None"
  by (simp add: map_has_def map_of_eq_None_iff)

subsection \<open>Ground tiles\<close>

lemma map_has_ground_cell:
  "map_has k (tiles (ground_cell c g)) \<longleftrightarrow> k = c \<or> map_has k (tiles g)"
  by (auto simp: ground_cell_def map_has_map_set)

lemma map_has_fold_ground_cell:
  "map_has k (tiles (fold ground_cell cs g)) \<longleftrightarrow> k \<in> set cs \<or> map_has k (tiles g)"
  by (induction cs arbitrary: g) (auto simp: map_has_ground_cell)

lemma distinct_ground_cell:
  "distinct (map fst (tiles g)) \<Longrightarrow> distinct (map fst (tiles (ground_cell c g)))"
  by (simp add: ground_cell_def map_set_def AList.distinct_update)

lemma distinct_fold_ground_cell:
  "distinct (map fst (tiles g)) \<Longrightarrow> distinct (map fst (tiles (fold ground_cell cs g)))"
  by (induction cs arbitrary: g) (auto simp: distinct_ground_cell)

lemma map_has_InfiniteGround_update:
  "map_has k (tiles (InfiniteGround_update g p)) \<longleftrightarrow>
   (k \<in> set (window \<lfloor>vec_x p / tileSize\<rfloor> \<lfloor>vec_z p / tileSize\<rfloor>) \<or> map_has k (tiles g)) \<and>
   \<not> too_far \<lfloor>vec_x p / tileSize\<rfloor> \<lfloor>vec_z p / tileSize\<rfloor> k"
  by (simp add: InfiniteGround_update_def Let_def map_has_evict map_has_fold_ground_cell)

text \<open>
  C5. After \<^verbatim>\<open>InfiniteGround.update\<close> at position \<open>p\<close>, every cell of the 5 by 5 window
  around the cell of \<open>p\<close> has a tile, every tile that is left lies within Chebyshev distance 3
  of that cell, and the map still holds one tile per key.
\<close>

theorem ground_window_invariant:
  "(\<forall>x z. \<bar>x - \<lfloor>vec_x p / tileSize\<rfloor>\<bar> \<le> 2 \<and> \<bar>z - \<lfloor>vec_z p / tileSize\<rfloor>\<bar> \<le> 2 \<longrightarrow>
      map_has (x, z) (tiles (InfiniteGround_update g p))) \<and>
   (\<forall>x z. map_has (x, z) (tiles (InfiniteGround_update g p)) \<longrightarrow>
      \<bar>x - \<lfloor>vec_x p / tileSize\<rfloor>\<bar> \<le> 3 \<and> \<bar>z - \<lfloor>vec_z p / tileSize\<rfloor>\<bar> \<le> 3) \<and>
   (distinct (map fst (tiles g)) \<longrightarrow> distinct (map fst (tiles (InfiniteGround_update g p))))"
proof -
  have d: "distinct (map fst (tiles g)) \<Longrightarrow> distinct (map fst (tiles (InfiniteGround_update g p)))"
    by (simp add: InfiniteGround_update_def Let_def distinct_evict distinct_fold_ground_cell)
  show ?thesis
    using d by (auto simp: map_has_InfiniteGround_update set_window too_far_def)
qed

text \<open>
  C5, on the first update of a fresh ground at the origin: the corner cell \<open>(2, -2)\<close> of the
  window has a tile, the cell \<open>(3, 0)\<close> outside it has none, and keys are not repeated.
\<close>

theorem ground_window_invariant_witness:
  "map_has (2, - 2) (tiles (InfiniteGround_update new_InfiniteGround (Vector3 0 0 0))) \<and>
   \<not> map_has (3, 0) (tiles (InfiniteGround_update new_InfiniteGround (Vector3 0 0 0))) \<and>
   distinct (map fst (tiles (InfiniteGround_update new_InfiniteGround (Vector3 0 0 0))))"
proof -
  note t = ground_window_invariant [of "Vector3 0 0 0" new_InfiniteGround]
  have d: "distinct (map fst (tiles new_InfiniteGround))"
    by (simp add: new_InfiniteGround_def)
  from t have "map_has (2, - 2) (tiles (InfiniteGround_update new_InfiniteGround (Vector3 0 0 0)))"
    by (simp add: tileSize_def)
  moreover from t d
  have "distinct (map fst (tiles (InfiniteGround_update new_InfiniteGround (Vector3 0 0 0))))"
    by blast
  moreover have "\<not> map_has (3, 0) (tiles new_InfiniteGround)"
    by (simp add: new_InfiniteGround_def map_has_def)
  then have "\<not> map_has (3, 0) (tiles (InfiniteGround_update new_InfiniteGround (Vector3 0 0 0)))"
    by (simp add: map_has_InfiniteGround_update set_window tileSize_def)
  ultimately show ?thesis by simp
qed

subsection \<open>Buildings\<close>

lemma building_cell_decided_id:
  "key \<in> loadedCells bs \<or> map_has key (buildings bs) \<Longrightarrow> building_cell key (bs, g) = (bs, g)"
  by (auto simp: building_cell_def)

lemma building_cell_loaded_mono:
  "k \<in> loadedCells (fst s) \<Longrightarrow> k \<in> loadedCells (fst (building_cell c s))"
  by (cases s) (auto simp: building_cell_def Let_def split: prod.splits option.splits)

lemma building_cell_has_mono:
  "map_has k (buildings (fst s)) \<Longrightarrow> map_has k (buildings (fst (building_cell c s)))"
  by (cases s) (auto simp: building_cell_def Let_def map_has_map_set split: prod.splits option.splits)

lemma building_cell_marks:
  "c \<in> loadedCells (fst (building_cell c s)) \<or> map_has c (buildings (fst (building_cell c s)))"
  by (cases s) (auto simp: building_cell_def Let_def split: prod.splits option.splits)

lemma building_cell_other:
  "k \<in> loadedCells (fst s) \<Longrightarrow>
   map_of (buildings (fst (building_cell c s))) k = map_of (buildings (fst s)) k"
  by (cases s)
    (auto simp: building_cell_def Let_def map_set_def AList.update_conv'
      split: prod.splits option.splits)

lemma fold_building_cell_loaded_mono:
  "k \<in> loadedCells (fst s) \<Longrightarrow> k \<in> loadedCells (fst (fold building_cell cs s))"
  by (induction cs arbitrary: s) (auto simp: building_cell_loaded_mono)

lemma fold_building_cell_has_mono:
  "map_has k (buildings (fst s)) \<Longrightarrow> map_has k (buildings (fst (fold building_cell cs s)))"
  by (induction cs arbitrary: s) (auto simp: building_cell_has_mono)

lemma fold_building_cell_other:
  "k \<in> loadedCells (fst s) \<Longrightarrow>
   map_of (buildings (fst (fold building_cell cs s))) k = map_of (buildings (fst s)) k"
  by (induction cs arbitrary: s) (auto simp: building_cell_other building_cell_loaded_mono)

lemma fold_building_cell_marks:
  "c \<in> set cs \<Longrightarrow>
   c \<in> loadedCells (fst (fold building_cell cs s)) \<or>
   map_has c (buildings (fst (fold building_cell cs s)))"
proof (induction cs arbitrary: s)
  case Nil
  then show ?case by simp
next
  case (Cons a cs)
  show ?case
  proof (cases "c = a")
    case True
    from building_cell_marks [of a s] show ?thesis
      using True fold_building_cell_loaded_mono [of a "building_cell a s" cs]
        fold_building_cell_has_mono [of a "building_cell a s" cs]
      by auto
  next
    case False
    with Cons show ?thesis by simp
  qed
qed

lemma fold_building_cell_id:
  "\<forall>c\<in>set cs. c \<in> loadedCells (fst s) \<or> map_has c (buildings (fst s)) \<Longrightarrow>
   fold building_cell cs s = s"
proof (induction cs arbitrary: s)
  case Nil
  then show ?case by simp
next
  case (Cons a cs)
  obtain bs g where s: "s = (bs, g)" by (cases s)
  from Cons.prems s have "building_cell a s = s"
    by (simp add: building_cell_decided_id)
  with Cons show ?case by simp
qed

lemma BuildingSystem_update_unfold:
  "BuildingSystem_update s p =
     (let gridX = \<lfloor>vec_x p / gridSize\<rfloor>; gridZ = \<lfloor>vec_z p / gridSize\<rfloor>;
          s1 = fold building_cell (window gridX gridZ) s
      in ((fst s1)\<lparr>buildings := evict gridX gridZ (buildings (fst s1))\<rparr>, snd s1))"
  by (simp add: BuildingSystem_update_def Let_def split_beta)

lemma BuildingSystem_update_loaded:
  "k \<in> loadedCells (fst s) \<Longrightarrow> k \<in> loadedCells (fst (BuildingSystem_update s p))"
  by (simp add: BuildingSystem_update_unfold Let_def fold_building_cell_loaded_mono)

lemma BuildingSystem_update_lookup:
  "k \<in> loadedCells (fst s) \<Longrightarrow>
   map_of (buildings (fst (BuildingSystem_update s p))) k = None \<or>
   map_of (buildings (fst (BuildingSystem_update s p))) k = map_of (buildings (fst s)) k"
  by (simp add: BuildingSystem_update_unfold Let_def map_of_evict fold_building_cell_other)

lemma BuildingSystem_updates_loaded:
  "k \<in> loadedCells (fst s) \<Longrightarrow> k \<in> loadedCells (fst (BuildingSystem_updates s ps))"
  unfolding BuildingSystem_updates_def
  by (induction ps arbitrary: s) (auto simp: BuildingSystem_update_loaded)

lemma BuildingSystem_updates_lookup:
  "k \<in> loadedCells (fst s) \<Longrightarrow>
   map_of (buildings (fst (BuildingSystem_updates s ps))) k = None \<or>
   map_of (buildings (fst (BuildingSystem_updates s ps))) k = map_of (buildings (fst s)) k"
  unfolding BuildingSystem_updates_def
proof (induction ps arbitrary: s)
  case Nil
  then show ?case by simp
next
  case (Cons p ps)
  from Cons.prems have l: "k \<in> loadedCells (fst (BuildingSystem_update s p))"
    by (rule BuildingSystem_update_loaded)
  from Cons.IH [OF l] BuildingSystem_update_lookup [OF Cons.prems, of p]
  show ?case by auto
qed

text \<open>
  C3. Once a cell is in the processed set \<^verbatim>\<open>loadedCells\<close>, the loop body of
  \<^verbatim>\<open>BuildingSystem.update\<close> for that cell changes nothing and draws no random number; over
  any later sequence of calls the processed set only grows, a processed cell without an
  active building never gets one again, and a building that is still active in that cell is
  the one it had.
\<close>

theorem processed_cell_never_rerolled:
  "key \<in> loadedCells (fst s) \<Longrightarrow>
     building_cell key s = s \<and>
     loadedCells (fst s) \<subseteq> loadedCells (fst (BuildingSystem_updates s ps)) \<and>
     (\<not> map_has key (buildings (fst s)) \<longrightarrow>
        \<not> map_has key (buildings (fst (BuildingSystem_updates s ps)))) \<and>
     (map_has key (buildings (fst (BuildingSystem_updates s ps))) \<longrightarrow>
        map_of (buildings (fst (BuildingSystem_updates s ps))) key = map_of (buildings (fst s)) key)"
proof -
  assume k: "key \<in> loadedCells (fst s)"
  have a: "building_cell key s = s"
    using k by (cases s) (simp add: building_cell_decided_id)
  have b: "loadedCells (fst s) \<subseteq> loadedCells (fst (BuildingSystem_updates s ps))"
    by (auto simp: BuildingSystem_updates_loaded)
  from BuildingSystem_updates_lookup [OF k, of ps] a b show ?thesis
    by (auto simp: map_has_map_of)
qed

text \<open>
  C3, on \<open>sample_city\<close> updated at the origin: the active building of the processed cell
  \<open>(1, 0)\<close> is kept as it was, and when that cell is processed but has no active building,
  the update creates none.
\<close>

theorem processed_cell_never_rerolled_witness:
  "map_of (buildings (fst (BuildingSystem_updates (sample_city, sample_rng) [Vector3 0 0 0]))) (1, 0)
     = Some sample_building \<and>
   \<not> map_has (1, 0) (buildings (fst (BuildingSystem_updates
        (sample_city\<lparr>buildings := []\<rparr>, sample_rng) [Vector3 0 0 0])))"
proof -
  have k: "(1, 0) \<in> loadedCells (fst (sample_city, sample_rng))"
    and k': "(1, 0) \<in> loadedCells (fst (sample_city\<lparr>buildings := []\<rparr>, sample_rng))"
    by (simp_all add: sample_city_def)
  have "map_has (1, 0) (buildings (fst (sample_city, sample_rng)))"
    by (simp add: sample_city_def map_has_def)
  then have "map_has (1, 0)
      (buildings (fst (BuildingSystem_update (sample_city, sample_rng) (Vector3 0 0 0))))"
    by (simp add: BuildingSystem_update_unfold Let_def map_has_evict fold_building_cell_has_mono
        too_far_def gridSize_def)
  then have h: "map_has (1, 0)
      (buildings (fst (BuildingSystem_updates (sample_city, sample_rng) [Vector3 0 0 0])))"
    by (simp add: BuildingSystem_updates_def)
  have e: "\<not> map_has (1, 0) (buildings (fst (sample_city\<lparr>buildings := []\<rparr>, sample_rng)))"
    by (simp add: map_has_def)
  from processed_cell_never_rerolled [OF k, of "[Vector3 0 0 0]"] h
  have "map_of (buildings (fst (BuildingSystem_updates (sample_city, sample_rng) [Vector3 0 0 0])))
      (1, 0) = Some sample_building"
    by (simp add: sample_city_def)
  moreover from processed_cell_never_rerolled [OF k', of "[Vector3 0 0 0]"] e
  have "\<not> map_has (1, 0) (buildings (fst (BuildingSystem_updates
        (sample_city\<lparr>buildings := []\<rparr>, sample_rng) [Vector3 0 0 0])))"
    by blast
  ultimately show ?thesis by simp
qed

text \<open>
  C4. A second call of \<^verbatim>\<open>BuildingSystem.update\<close> with the same player position changes
  nothing: the active buildings, the processed cells and the random supply are as the first
  call left them.
\<close>

theorem BuildingSystem_update_idempotent:
  "BuildingSystem_update (BuildingSystem_update s p) p = BuildingSystem_update s p"
proof -
  define gx where "gx = \<lfloor>vec_x p / gridSize\<rfloor>"
  define gz where "gz = \<lfloor>vec_z p / gridSize\<rfloor>"
  define s1 where "s1 = fold building_cell (window gx gz) s"
  define s2 where "s2 = ((fst s1)\<lparr>buildings := evict gx gz (buildings (fst s1))\<rparr>, snd s1)"
  have u1: "BuildingSystem_update s p = s2"
    by (simp add: BuildingSystem_update_unfold s2_def s1_def gx_def gz_def Let_def)
  have "\<forall>c\<in>set (window gx gz). c \<in> loadedCells (fst s2) \<or> map_has c (buildings (fst s2))"
  proof
    fix c assume c: "c \<in> set (window gx gz)"
    from fold_building_cell_marks [OF c, of s] window_near [OF c]
    show "c \<in> loadedCells (fst s2) \<or> map_has c (buildings (fst s2))"
      by (auto simp: s2_def s1_def map_has_evict)
  qed
  then have f: "fold building_cell (window gx gz) s2 = s2"
    by (rule fold_building_cell_id)
  have "BuildingSystem_update s2 p = s2"
    by (simp add: BuildingSystem_update_unfold Let_def f gx_def [symmetric] gz_def [symmetric])
       (simp add: s2_def evict_idem)
  with u1 show ?thesis by simp
qed

section \<open>Collision\<close>

lemma sample_building_created:
  "createBuilding (new_BuildingSystem\<lparr>buildingModels := 2\<rparr>) 1 0 sample_rng =
     (Some sample_building, sample_rng\<lparr>drawn := 5\<rparr>)"
  by (simp add: createBuilding_def Math_random_def sample_rng_def sample_building_def Let_def
      gridSize_def buildingSpacing_def new_BuildingSystem_def eval_nat_numeral)

lemma checkCollision_loop_iff:
  "checkCollision_loop es pt r \<longleftrightarrow> (\<exists>e\<in>set es. too_close pt r (snd e))"
  by (induction es) auto

lemma too_close_iff: "too_close pt r b \<longleftrightarrow> planar_distance pt b < collision_threshold r b"
  by (simp add: too_close_def planar_distance_def collision_threshold_def Let_def power2_eq_square)

lemma checkCollision_iff:
  "checkCollision bs pt r \<longleftrightarrow>
   (\<exists>e\<in>set (buildings bs). planar_distance pt (snd e) < collision_threshold r (snd e))"
  by (simp add: checkCollision_def checkCollision_loop_iff too_close_iff)

lemma checkCollision_turned: "checkCollision (turned \<rho> bs) pt r = checkCollision bs pt r"
  by (simp add: checkCollision_iff turned_def planar_distance_def collision_threshold_def)

text \<open>The same test without the square root, for evaluation on concrete points.\<close>

lemma too_close_squares:
  "too_close pt r b \<longleftrightarrow>
     0 < collision_threshold r b \<and>
     (vec_x pt - vec_x (box_position (collisionBox b)))\<^sup>2 +
     (vec_z pt - vec_z (box_position (collisionBox b)))\<^sup>2 < (collision_threshold r b)\<^sup>2"
proof -
  let ?s = "(vec_x pt - vec_x (box_position (collisionBox b)))\<^sup>2 +
     (vec_z pt - vec_z (box_position (collisionBox b)))\<^sup>2"
  let ?t = "collision_threshold r b"
  have s: "0 \<le> ?s" by simp
  have "sqrt ?s < ?t \<longleftrightarrow> 0 < ?t \<and> ?s < ?t\<^sup>2"
  proof (cases "0 < ?t")
    case True
    then have "sqrt ?s < ?t \<longleftrightarrow> sqrt ?s < sqrt (?t\<^sup>2)" by simp
    also have "\<dots> \<longleftrightarrow> ?s < ?t\<^sup>2" by (rule real_sqrt_less_iff)
    finally show ?thesis using True by simp
  next
    case False
    have "0 \<le> sqrt ?s" using s by simp
    with False show ?thesis by linarith
  qed
  then show ?thesis
    by (simp add: too_close_iff planar_distance_def)
qed

lemma checkCollision_sample_city:
  "checkCollision sample_city pt (3 / 2) \<longleftrightarrow> (vec_x pt - 25)\<^sup>2 + (vec_z pt)\<^sup>2 < (288 / 25)\<^sup>2"
  by (simp add: checkCollision_def sample_city_def too_close_squares collision_threshold_def
      sample_building_def)

lemma sample_distances:
  "planar_distance (Vector3 14 2 0) sample_building = 11"
  "planar_distance (Vector3 13 2 0) sample_building = 12"
  "collision_threshold (3 / 2) sample_building = 288 / 25"
  by (simp_all add: planar_distance_def collision_threshold_def sample_building_def)

text \<open>
  C2. \<^verbatim>\<open>checkCollision(point, radius)\<close> is true exactly when some active building has its
  centre at planar distance less than half its box width plus the radius plus the buffer of
  its variant; turning the buildings does not change the answer; a point at the threshold
  minus a positive \<open>\<epsilon>\<close> from an active building collides, and a point at the threshold plus
  \<open>\<epsilon>\<close> from the only active building does not.
\<close>

theorem checkCollision_cylinder:
  "(checkCollision bs pt r \<longleftrightarrow>
      (\<exists>e\<in>set (buildings bs). planar_distance pt (snd e) < collision_threshold r (snd e))) \<and>
   checkCollision (turned \<rho> bs) pt r = checkCollision bs pt r \<and>
   (\<forall>e \<epsilon>. e \<in> set (buildings bs) \<and> 0 < \<epsilon> \<and>
      planar_distance pt (snd e) = collision_threshold r (snd e) - \<epsilon> \<longrightarrow> checkCollision bs pt r) \<and>
   (\<forall>e \<epsilon>. buildings bs = [e] \<and> 0 < \<epsilon> \<and>
      planar_distance pt (snd e) = collision_threshold r (snd e) + \<epsilon> \<longrightarrow> \<not> checkCollision bs pt r)"
proof -
  have a: "checkCollision bs pt r" if "e \<in> set (buildings bs)" "0 < \<epsilon>"
    "planar_distance pt (snd e) = collision_threshold r (snd e) - \<epsilon>" for e \<epsilon>
    using that unfolding checkCollision_iff by (intro bexI [of _ e]) simp_all
  have b: "\<not> checkCollision bs pt r" if "buildings bs = [e]" "0 < \<epsilon>"
    "planar_distance pt (snd e) = collision_threshold r (snd e) + \<epsilon>" for e \<epsilon>
    using that unfolding checkCollision_iff by simp
  from a b show ?thesis
    using checkCollision_iff [of bs pt r] checkCollision_turned [of \<rho> bs pt r] by blast
qed

text \<open>
  C2, on \<open>sample_city\<close> with the player's radius 1.5 (threshold 11.52): a point 11 away from
  the centre collides, also when the building is turned by a quarter, and a point 12 away
  does not.
\<close>

theorem checkCollision_cylinder_witness:
  "checkCollision sample_city (Vector3 14 2 0) 1.5 \<and>
   \<not> checkCollision sample_city (Vector3 13 2 0) 1.5 \<and>
   checkCollision (turned (\<lambda>k. pi / 2) sample_city) (Vector3 14 2 0) 1.5"
proof -
  have m: "((1, 0), sample_building) \<in> set (buildings sample_city)"
    and l: "buildings sample_city = [((1, 0), sample_building)]"
    by (simp_all add: sample_city_def)
  have near: "planar_distance (Vector3 14 2 0) (snd ((1::int, 0::int), sample_building)) =
      collision_threshold 1.5 (snd ((1::int, 0::int), sample_building)) - 0.52"
    and far: "planar_distance (Vector3 13 2 0) (snd ((1::int, 0::int), sample_building)) =
      collision_threshold 1.5 (snd ((1::int, 0::int), sample_building)) + 0.48"
    by (simp_all add: sample_distances)
  from checkCollision_cylinder [of sample_city "Vector3 14 2 0" "1.5" "\<lambda>k. pi / 2"] m near
  have c1: "checkCollision sample_city (Vector3 14 2 0) 1.5"
    and c3: "checkCollision (turned (\<lambda>k. pi / 2) sample_city) (Vector3 14 2 0) 1.5"
    by (fastforce, fastforce)
  from checkCollision_cylinder [of sample_city "Vector3 13 2 0" "1.5" "\<lambda>k. 0"] l far
  have c2: "\<not> checkCollision sample_city (Vector3 13 2 0) 1.5"
    by fastforce
  from c1 c2 c3 show ?thesis by simp
qed

section \<open>Player\<close>

lemma too_close_height: "too_close (Vector3 px h1 pz) r b = too_close (Vector3 px h2 pz) r b"
  by (simp add: too_close_def)

lemma checkCollision_height:
  "checkCollision bs (Vector3 px h1 pz) r = checkCollision bs (Vector3 px h2 pz) r"
  by (simp add: checkCollision_def checkCollision_loop_iff too_close_height [of px h1 pz _ _ h2])

lemma collides_set_y: "collides bsys (set_y v h) r = collides bsys v r"
  by (cases v; cases bsys) (simp_all add: collides_def set_y_def checkCollision_height [of _ _ h])

lemma collides_no_buildings: "\<not> collides (Some new_BuildingSystem) pt r"
  by (simp add: collides_def checkCollision_def new_BuildingSystem_def)

lemma vec_y_set_y: "vec_y (set_y v h) = h"
  by (simp add: set_y_def)

lemma updatePosition_carried:
  "model p \<noteq> None \<Longrightarrow> \<exists>p'. updatePosition bsys p = Inr p' \<and> carried bsys p p'"
  by (auto simp: updatePosition_def copy_to_model_def carried_def Let_def vec_y_set_y)

lemma setAnimation_carried:
  assumes "model p \<noteq> None"
  shows "\<exists>p'. setAnimation bsys a p = Inr p' \<and> carried bsys p p'"
proof -
  let ?p1 = "p\<lparr>isMoving := (a = Run \<or> a = Walk)\<rparr>"
  have m: "model ?p1 \<noteq> None" using assms by simp
  from updatePosition_carried [OF m, of bsys]
  obtain q where q: "updatePosition bsys ?p1 = Inr q" "carried bsys ?p1 q" by blast
  show ?thesis
    using assms q by (auto simp: setAnimation_def and_then_def carried_def Let_def)
qed

lemma setAnimation_Jump:
  "setAnimation bsys Jump p =
     Inr (if Jump \<notin> animations p \<or> currentAction p = None \<or> currentAction p = Some Jump then p
          else p\<lparr>isMoving := False, currentAction := Some Jump\<rparr>)"
  by (simp add: setAnimation_def and_then_def Let_def)

lemma vec_y_jump_candidate:
  "vec_y (jump_candidate p) = vec_y (position p) + (vec_y (jumpVelocity p) - gravity)"
  by (simp add: jump_candidate_def jump_advance_def Let_def vec_add_def set_y_def setFromSpherical_def)

lemma jump_advance_fields:
  "isJumping (jump_advance p) = isJumping p" "model (jump_advance p) = model p"
  "jumpDuration (jump_advance p) = jumpDuration p + 1"
  "vec_y (jumpVelocity (jump_advance p)) = vec_y (jumpVelocity p) - gravity"
  "position (jump_advance p) = position p"
  by (simp_all add: jump_advance_def Let_def vec_y_set_y)

lemma jump_commit_free:
  assumes "model p \<noteq> None" "\<not> collides bsys (jump_candidate p) radius"
  shows "jump_commit bsys p =
           Inr ((jump_advance p)\<lparr>position := jump_candidate p,
                  model := Some ((the (model p))\<lparr>model_position := jump_candidate p\<rparr>)\<rparr>)"
  using assms by (auto simp: jump_commit_def copy_to_model_def Let_def jump_advance_def)

lemma jump_commit_blocked:
  assumes "model p \<noteq> None" "collides bsys (jump_candidate p) radius"
  shows "\<exists>p'. jump_commit bsys p = Inr p' \<and> model p' \<noteq> None \<and> \<not> isJumping p' \<and>
           jumpDuration p' = 0 \<and> vec_y (position p') = landingHeight \<and>
           vec_y (jumpVelocity p') = - (vec_y (jumpVelocity p) - gravity) * 0.5 \<and>
           (\<not> collides bsys (position p) radius \<longrightarrow> \<not> collides bsys (position p') radius)"
proof -
  let ?q = "(jump_advance p)\<lparr>jumpVelocity := set_y (jumpVelocity (jump_advance p))
                (- vec_y (jumpVelocity (jump_advance p)) * 0.5), isJumping := False, jumpDuration := 0\<rparr>"
  obtain m where m: "model p = Some m" using assms by auto
  let ?q1 = "?q\<lparr>position := set_y (position ?q) landingHeight,
                 model := Some (m\<lparr>model_position := set_y (model_position m) landingHeight\<rparr>)\<rparr>"
  have s: "snap_height landingHeight ?q = Inr ?q1"
    using m by (simp add: snap_height_def jump_advance_def Let_def)
  have "model ?q1 \<noteq> None" by simp
  from setAnimation_carried [OF this, of bsys "if isMoving ?q1 then Run else Idle"]
  obtain p' where p': "setAnimation bsys (if isMoving ?q1 then Run else Idle) ?q1 = Inr p'"
    "carried bsys ?q1 p'" by blast
  have "jump_commit bsys p = Inr p'"
    using assms(2) s p'(1) by (simp add: jump_commit_def Let_def and_then_def)
  moreover from p'(2) have "model p' \<noteq> None \<and> \<not> isJumping p' \<and>
           jumpDuration p' = 0 \<and> vec_y (position p') = landingHeight \<and>
           vec_y (jumpVelocity p') = - (vec_y (jumpVelocity p) - gravity) * 0.5 \<and>
           (\<not> collides bsys (position p) radius \<longrightarrow> \<not> collides bsys (position p') radius)"
    by (simp add: carried_def vec_y_set_y jump_advance_def Let_def collides_set_y)
  ultimately show ?thesis by blast
qed

lemma jump_landing_lands:
  assumes "model p \<noteq> None"
    and "vec_y (position p) \<le> landingHeight \<or> jumpDuration p \<ge> maxJumpDuration"
  shows "\<exists>p'. jump_landing bsys p = Inr p' \<and> model p' \<noteq> None \<and> \<not> isJumping p' \<and>
           jumpDuration p' = 0 \<and> vec_y (position p') = landingHeight \<and>
           jumpVelocity p' = jumpVelocity p \<and>
           (\<not> collides bsys (position p) radius \<longrightarrow> \<not> collides bsys (position p') radius)"
proof -
  obtain m where m: "model p = Some m" using assms by auto
  let ?q1 = "p\<lparr>position := set_y (position p) landingHeight,
                 model := Some (m\<lparr>model_position := set_y (model_position m) landingHeight\<rparr>)\<rparr>"
  let ?q2 = "?q1\<lparr>isJumping := False, jumpDuration := 0\<rparr>"
  have s: "snap_height landingHeight p = Inr ?q1"
    using m by (simp add: snap_height_def)
  have "model ?q2 \<noteq> None" by simp
  from setAnimation_carried [OF this, of bsys "if isMoving ?q1 then Run else Idle"]
  obtain p' where p': "setAnimation bsys (if isMoving ?q1 then Run else Idle) ?q2 = Inr p'"
    "carried bsys ?q2 p'" by blast
  have "jump_landing bsys p = Inr p'"
    using assms(2) s p'(1) by (simp add: jump_landing_def and_then_def)
  moreover from p'(2) have "model p' \<noteq> None \<and> \<not> isJumping p' \<and>
           jumpDuration p' = 0 \<and> vec_y (position p') = landingHeight \<and>
           jumpVelocity p' = jumpVelocity p \<and>
           (\<not> collides bsys (position p) radius \<longrightarrow> \<not> collides bsys (position p') radius)"
    by (simp add: carried_def vec_y_set_y collides_set_y)
  ultimately show ?thesis by blast
qed

lemma jump_landing_continues:
  assumes "\<not> (vec_y (position p) \<le> landingHeight \<or> jumpDuration p \<ge> maxJumpDuration)"
  shows "jump_landing bsys p = Inr p"
  using assms by (simp add: jump_landing_def)

lemmas frame_defs =
  player_frame_def InputController_update_def PlayerCharacter_update_def jump_landing_def
  jump_commit_def jump_candidate_def jump_advance_def jump_def setAnimation_def
  PlayerCharacter_rotate_def move_def updatePosition_def snap_height_def copy_to_model_def
  load_def new_PlayerCharacter_def new_InputController_def and_then_def setFromSpherical_def
  set_y_def vec_add_def multiplyScalar_def moveSpeed_def walkSpeed_def jumpSpeed_def
  jumpForwardSpeed_def gravity_def maxJumpDuration_def landingHeight_def

subsection \<open>Jumping\<close>

text \<open>
  C6 as stated fails on the animation: a player loaded from a jump file that carries no
  animation has no jump clip, and \<^verbatim>\<open>setAnimation('jump')\<close> returns at its first guard. On
  such a player, grounded and idle, \<^verbatim>\<open>jump()\<close> sets the flag and the velocity, and the
  current action stays Idle.
\<close>

theorem jump_without_clip_stays_idle:
  "\<not> isJumping (load {Idle, Run, Walk} new_PlayerCharacter) \<and>
   model (load {Idle, Run, Walk} new_PlayerCharacter) \<noteq> None \<and>
   currentAction (load {Idle, Run, Walk} new_PlayerCharacter) = Some Idle \<and>
   jump (Some new_BuildingSystem) (load {Idle, Run, Walk} new_PlayerCharacter) =
     Inr ((load {Idle, Run, Walk} new_PlayerCharacter)
            \<lparr>isJumping := True, jumpVelocity := Vector3 0 0.19 0\<rparr>) \<and>
   currentAction ((load {Idle, Run, Walk} new_PlayerCharacter)
            \<lparr>isJumping := True, jumpVelocity := Vector3 0 0.19 0\<rparr>) \<noteq> Some Jump"
  by (simp add: frame_defs)

text \<open>
  C6, amended. \<^verbatim>\<open>jump()\<close> on a grounded player sets \<^verbatim>\<open>isJumping\<close>, sets the jump velocity
  to \<open>(0, 0.19, 0)\<close> and resets the tick counter; when the jump clip is loaded and an action
  is playing it makes Jump the current action at once, and otherwise it leaves the current
  action as it was. On an airborne player \<^verbatim>\<open>jump()\<close> changes nothing.
\<close>

theorem jump_grounded_and_airborne:
  "(\<not> isJumping p \<longrightarrow>
      (\<exists>p'. jump bsys p = Inr p' \<and> isJumping p' \<and> jumpVelocity p' = Vector3 0 0.19 0 \<and>
            jumpDuration p' = 0 \<and>
            (Jump \<in> animations p \<and> currentAction p \<noteq> None \<longrightarrow> currentAction p' = Some Jump) \<and>
            (\<not> (Jump \<in> animations p \<and> currentAction p \<noteq> None) \<longrightarrow>
               currentAction p' = currentAction p))) \<and>
   (isJumping p \<longrightarrow> jump bsys p = Inr p)"
  by (auto simp: jump_def setAnimation_Jump and_then_def jumpSpeed_def)

text \<open>
  C6 amended, on the player loaded with all four clips and standing at the origin:
  \<^verbatim>\<open>jump()\<close> yields \<open>rising_player\<close>, whose current action is Jump, and a second
  \<^verbatim>\<open>jump()\<close> leaves \<open>rising_player\<close> as it is.
\<close>

theorem jump_grounded_and_airborne_witness:
  "jump (Some new_BuildingSystem) (load UNIV new_PlayerCharacter) = Inr rising_player \<and>
   currentAction rising_player = Some Jump \<and>
   jump (Some new_BuildingSystem) rising_player = Inr rising_player"
proof -
  let ?p = "load UNIV new_PlayerCharacter"
  have g: "\<not> isJumping ?p" "Jump \<in> animations ?p" "currentAction ?p \<noteq> None"
    by (simp_all add: load_def new_PlayerCharacter_def)
  from jump_grounded_and_airborne [of ?p "Some new_BuildingSystem"] g
  obtain p' where p': "jump (Some new_BuildingSystem) ?p = Inr p'" "currentAction p' = Some Jump"
    by blast
  have e: "jump (Some new_BuildingSystem) ?p = Inr rising_player"
    by (simp add: frame_defs rising_player_def)
  have a: "isJumping rising_player" by (simp add: rising_player_def)
  from jump_grounded_and_airborne [of rising_player "Some new_BuildingSystem"] a
  have "jump (Some new_BuildingSystem) rising_player = Inr rising_player" by blast
  with e p' show ?thesis by simp
qed

text \<open>
  C1 as stated fails: on the tick that ends a jump the vertical jump velocity is not reset to
  zero. The loaded player jumps at the origin with no building around; 62 frames later it is
  \<open>falling_player\<close>, still airborne; the next \<^verbatim>\<open>update\<close> lands it at height 2 with the tick
  counter at 0 and the jump velocity at \<open>-0.188\<close>.
\<close>

theorem landing_keeps_jump_velocity:
  "player_frames 62 (Some new_BuildingSystem) (1 / 60)
     (onKeyDown Space new_InputController, load UNIV new_PlayerCharacter) =
     Inr (jump_key_held, falling_player) \<and>
   isJumping falling_player \<and>
   PlayerCharacter_update (Some new_BuildingSystem) (1 / 60) falling_player = Inr landed_player \<and>
   \<not> isJumping landed_player \<and> vec_y (position landed_player) = landingHeight \<and>
   vec_y (jumpVelocity landed_player) = - 0.188 \<and> vec_y (jumpVelocity landed_player) \<noteq> 0"
proof -
  have a: "player_frames 62 (Some new_BuildingSystem) (1 / 60)
     (onKeyDown Space new_InputController, load UNIV new_PlayerCharacter) =
     Inr (jump_key_held, falling_player)"
    by (simp add: frame_defs collides_no_buildings Let_def eval_nat_numeral jump_key_held_def
        falling_player_def)
  have b: "PlayerCharacter_update (Some new_BuildingSystem) (1 / 60) falling_player = Inr landed_player"
    by (simp add: frame_defs collides_no_buildings Let_def falling_player_def landed_player_def)
  from a b show ?thesis
    by (simp add: falling_player_def landed_player_def landingHeight_def)
qed

text \<open>
  C1, amended. On a tick with the player airborne and its model loaded, \<^verbatim>\<open>update\<close> returns
  normally. With the candidate position of the tick at height
  \<open>position.y + (jumpVelocity.y - gravity)\<close>, the jump ends on this tick exactly when the
  candidate hits a building, or its height is at most \<^verbatim>\<open>landingHeight\<close> = 2, or the
  incremented tick counter reaches \<^verbatim>\<open>maxJumpDuration\<close> = 90. When the jump ends the height
  is exactly \<^verbatim>\<open>landingHeight\<close> and the counter is 0; when it goes on the player is at the
  candidate and the counter is one more. In both cases the counter stays below 90. The
  vertical jump velocity is not reset: it is the old one minus gravity, and minus one half
  of that after a hit.
\<close>

theorem airborne_tick:
  assumes "isJumping p" and "model p \<noteq> None"
  shows "\<exists>p'. PlayerCharacter_update bsys deltaTime p = Inr p' \<and>
           vec_y (jump_candidate p) = vec_y (position p) + (vec_y (jumpVelocity p) - gravity) \<and>
           (\<not> isJumping p' \<longleftrightarrow>
              collides bsys (jump_candidate p) radius \<or>
              vec_y (jump_candidate p) \<le> landingHeight \<or>
              jumpDuration p + 1 \<ge> maxJumpDuration) \<and>
           (\<not> isJumping p' \<longrightarrow> vec_y (position p') = landingHeight \<and> jumpDuration p' = 0) \<and>
           (isJumping p' \<longrightarrow> position p' = jump_candidate p \<and> jumpDuration p' = jumpDuration p + 1) \<and>
           jumpDuration p' < maxJumpDuration \<and> maxJumpDuration = 90 \<and> landingHeight = 2 \<and>
           vec_y (jumpVelocity p') =
             (if collides bsys (jump_candidate p) radius
              then - (vec_y (jumpVelocity p) - gravity) * 0.5
              else vec_y (jumpVelocity p) - gravity)"
proof (cases "collides bsys (jump_candidate p) radius")
  case True
  from jump_commit_blocked [OF assms(2) True]
  obtain q where q: "jump_commit bsys p = Inr q" "model q \<noteq> None" "\<not> isJumping q"
    "jumpDuration q = 0" "vec_y (position q) = landingHeight"
    "vec_y (jumpVelocity q) = - (vec_y (jumpVelocity p) - gravity) * 0.5" by blast
  from q(5) have "vec_y (position q) \<le> landingHeight \<or> jumpDuration q \<ge> maxJumpDuration" by simp
  from jump_landing_lands [OF q(2) this, of bsys]
  obtain p' where p': "jump_landing bsys q = Inr p'" "\<not> isJumping p'" "jumpDuration p' = 0"
    "vec_y (position p') = landingHeight" "jumpVelocity p' = jumpVelocity q" by blast
  have "PlayerCharacter_update bsys deltaTime p = Inr p'"
    using assms(1) q(1) p'(1) by (simp add: PlayerCharacter_update_def and_then_def)
  with True q p' show ?thesis
    by (simp add: vec_y_jump_candidate maxJumpDuration_def landingHeight_def)
next
  case False
  let ?q = "(jump_advance p)\<lparr>position := jump_candidate p,
              model := Some ((the (model p))\<lparr>model_position := jump_candidate p\<rparr>)\<rparr>"
  have c: "jump_commit bsys p = Inr ?q" by (rule jump_commit_free [OF assms(2) False])
  have u: "PlayerCharacter_update bsys deltaTime p = jump_landing bsys ?q"
    using assms(1) c by (simp add: PlayerCharacter_update_def and_then_def)
  show ?thesis
  proof (cases "vec_y (position ?q) \<le> landingHeight \<or> jumpDuration ?q \<ge> maxJumpDuration")
    case True
    have "model ?q \<noteq> None" by simp
    from jump_landing_lands [OF this True, of bsys]
    obtain p' where p': "jump_landing bsys ?q = Inr p'" "\<not> isJumping p'" "jumpDuration p' = 0"
      "vec_y (position p') = landingHeight" "jumpVelocity p' = jumpVelocity ?q" by blast
    from True
    have "vec_y (jump_candidate p) \<le> landingHeight \<or> jumpDuration p + 1 \<ge> maxJumpDuration"
      by (simp add: jump_advance_fields)
    with False u p' show ?thesis
      by (simp add: vec_y_jump_candidate maxJumpDuration_def landingHeight_def jump_advance_fields)
  next
    case F2: False
    then have "jump_landing bsys ?q = Inr ?q" by (rule jump_landing_continues)
    moreover from F2
    have "\<not> (vec_y (jump_candidate p) \<le> landingHeight \<or> jumpDuration p + 1 \<ge> maxJumpDuration)"
      by (simp add: jump_advance_fields)
    ultimately show ?thesis
      using False u assms(1)
      by (simp add: vec_y_jump_candidate maxJumpDuration_def landingHeight_def jump_advance_fields)
  qed
qed

text \<open>
  C1 amended, on two ticks of the same jump: from \<open>rising_player\<close> the jump goes on, from
  \<open>falling_player\<close> it ends at height 2 with the counter at 0 and the velocity at \<open>-0.188\<close>.
\<close>

theorem airborne_tick_witness:
  "(\<exists>p'. PlayerCharacter_update (Some new_BuildingSystem) (1 / 60) rising_player = Inr p' \<and>
      isJumping p' \<and> jumpDuration p' = 1 \<and> vec_y (position p') = 2.184) \<and>
   (\<exists>p'. PlayerCharacter_update (Some new_BuildingSystem) (1 / 60) falling_player = Inr p' \<and>
      \<not> isJumping p' \<and> jumpDuration p' = 0 \<and> vec_y (position p') = 2 \<and>
      vec_y (jumpVelocity p') = - 0.188)"
proof -
  have r: "isJumping rising_player" "model rising_player \<noteq> None"
    by (simp_all add: rising_player_def)
  have f: "isJumping falling_player" "model falling_player \<noteq> None"
    by (simp_all add: falling_player_def)
  from airborne_tick [OF r, of "Some new_BuildingSystem" "1 / 60"]
  have a: "\<exists>p'. PlayerCharacter_update (Some new_BuildingSystem) (1 / 60) rising_player = Inr p' \<and>
      isJumping p' \<and> jumpDuration p' = 1 \<and> vec_y (position p') = 2.184"
    by (auto simp: collides_no_buildings rising_player_def gravity_def landingHeight_def)
  from airborne_tick [OF f, of "Some new_BuildingSystem" "1 / 60"]
  have b: "\<exists>p'. PlayerCharacter_update (Some new_BuildingSystem) (1 / 60) falling_player = Inr p' \<and>
      \<not> isJumping p' \<and> jumpDuration p' = 0 \<and> vec_y (position p') = 2 \<and>
      vec_y (jumpVelocity p') = - 0.188"
    by (auto simp: collides_no_buildings falling_player_def gravity_def landingHeight_def)
  from a b show ?thesis by blast
qed

text \<open>
  C10. \<^verbatim>\<open>checkCollision\<close> does not read the height of the queried point. Hence an airborne
  player whose candidate position is inside a building's cylinder at some height is stopped
  on that tick whatever its own height: \<^verbatim>\<open>update\<close> ends the jump at \<^verbatim>\<open>landingHeight\<close>.
  And a loaded player that is clear of every building is still clear after \<^verbatim>\<open>update\<close>, so
  no jump carries it over a building.
\<close>

theorem collision_ignores_height:
  "checkCollision bs (Vector3 px h1 pz) r = checkCollision bs (Vector3 px h2 pz) r \<and>
   (isJumping p \<and> model p \<noteq> None \<and> collides bsys (set_y (jump_candidate p) h) radius \<longrightarrow>
      (\<exists>p'. PlayerCharacter_update bsys deltaTime p = Inr p' \<and> \<not> isJumping p' \<and>
            vec_y (position p') = landingHeight \<and>
            (\<not> collides bsys (position p) radius \<longrightarrow> \<not> collides bsys (position p') radius))) \<and>
   (model p \<noteq> None \<and> \<not> collides bsys (position p) radius \<longrightarrow>
      (\<exists>p'. PlayerCharacter_update bsys deltaTime p = Inr p' \<and>
            \<not> collides bsys (position p') radius))"
proof -
  have a: "checkCollision bs (Vector3 px h1 pz) r = checkCollision bs (Vector3 px h2 pz) r"
    by (rule checkCollision_height)
  have b: "\<exists>p'. PlayerCharacter_update bsys deltaTime p = Inr p' \<and> \<not> isJumping p' \<and>
            vec_y (position p') = landingHeight \<and>
            (\<not> collides bsys (position p) radius \<longrightarrow> \<not> collides bsys (position p') radius)"
    if j: "isJumping p" and m: "model p \<noteq> None"
      and c: "collides bsys (set_y (jump_candidate p) h) radius" for h
  proof -
    from c have c': "collides bsys (jump_candidate p) radius" by (simp add: collides_set_y)
    from jump_commit_blocked [OF m c']
    obtain q where q: "jump_commit bsys p = Inr q" "model q \<noteq> None"
      "vec_y (position q) = landingHeight"
      "\<not> collides bsys (position p) radius \<longrightarrow> \<not> collides bsys (position q) radius" by blast
    from q(3) have "vec_y (position q) \<le> landingHeight \<or> jumpDuration q \<ge> maxJumpDuration"
      by simp
    from jump_landing_lands [OF q(2) this, of bsys]
    obtain p' where p': "jump_landing bsys q = Inr p'" "\<not> isJumping p'"
      "vec_y (position p') = landingHeight"
      "\<not> collides bsys (position q) radius \<longrightarrow> \<not> collides bsys (position p') radius" by blast
    have "PlayerCharacter_update bsys deltaTime p = Inr p'"
      using j q(1) p'(1) by (simp add: PlayerCharacter_update_def and_then_def)
    with q p' show ?thesis by auto
  qed
  have c: "\<exists>p'. PlayerCharacter_update bsys deltaTime p = Inr p' \<and>
            \<not> collides bsys (position p') radius"
    if m: "model p \<noteq> None" and f: "\<not> collides bsys (position p) radius"
  proof (cases "isJumping p")
    case False
    with f show ?thesis by (simp add: PlayerCharacter_update_def)
  next
    case True
    show ?thesis
    proof (cases "collides bsys (jump_candidate p) radius")
      case C: True
      then have "collides bsys (set_y (jump_candidate p) 0) radius" by (simp add: collides_set_y)
      from b [OF True m this] f show ?thesis by auto
    next
      case F: False
      let ?q = "(jump_advance p)\<lparr>position := jump_candidate p,
              model := Some ((the (model p))\<lparr>model_position := jump_candidate p\<rparr>)\<rparr>"
      have cm: "jump_commit bsys p = Inr ?q" by (rule jump_commit_free [OF m F])
      have u: "PlayerCharacter_update bsys deltaTime p = jump_landing bsys ?q"
        using True cm by (simp add: PlayerCharacter_update_def and_then_def)
      show ?thesis
      proof (cases "vec_y (position ?q) \<le> landingHeight \<or> jumpDuration ?q \<ge> maxJumpDuration")
        case L: True
        have "model ?q \<noteq> None" by simp
        from jump_landing_lands [OF this L, of bsys] u F show ?thesis by auto
      next
        case False
        then have "jump_landing bsys ?q = Inr ?q" by (rule jump_landing_continues)
        with u F show ?thesis by simp
      qed
    qed
  qed
  from a b c show ?thesis by blast
qed

text \<open>
  C10, on \<open>blocked_player\<close>, three units above the ground and clear of \<open>sample_building\<close>:
  its next candidate position is inside the building's cylinder, the collision test gives
  the same answer at height 100, and \<^verbatim>\<open>update\<close> ends the jump with the player still clear.
\<close>

theorem collision_ignores_height_witness:
  "checkCollision sample_city (Vector3 14 2 0) 1.5 = checkCollision sample_city (Vector3 14 100 0) 1.5 \<and>
   collides (Some sample_city) (set_y (jump_candidate blocked_player) 100) radius \<and>
   \<not> collides (Some sample_city) (position blocked_player) radius \<and>
   (\<exists>p'. PlayerCharacter_update (Some sample_city) (1 / 60) blocked_player = Inr p' \<and>
      \<not> isJumping p' \<and> vec_y (position p') = landingHeight \<and>
      \<not> collides (Some sample_city) (position p') radius)"
proof -
  note t = collision_ignores_height [of sample_city 14 2 0 "1.5" 100 blocked_player
      "Some sample_city" 100 "1 / 60"]
  have j: "isJumping blocked_player" "model blocked_player \<noteq> None"
    by (simp_all add: blocked_player_def)
  have c: "collides (Some sample_city) (set_y (jump_candidate blocked_player) 100) radius"
    by (simp add: collides_def radius_def checkCollision_sample_city blocked_player_def
        jump_candidate_def jump_advance_def Let_def set_y_def vec_add_def setFromSpherical_def
        jumpForwardSpeed_def maxJumpDuration_def gravity_def power2_eq_square)
  have f: "\<not> collides (Some sample_city) (position blocked_player) radius"
    by (simp add: collides_def radius_def checkCollision_sample_city blocked_player_def
        power2_eq_square)
  from t j c f show ?thesis by blast
qed

subsection \<open>Before the model is loaded\<close>

lemma player_frames_unloaded:
  "model p = None \<Longrightarrow> player_frames n bsys deltaTime (ic, p) = Inr (ic, p)"
  by (induction n) (simp_all add: player_frame_def and_then_def)

text \<open>
  C7 as stated fails for \<^verbatim>\<open>jump\<close>: the method has no guard on the model. Called on the
  freshly constructed player, whose model is \<^verbatim>\<open>null\<close>, it sets \<^verbatim>\<open>isJumping\<close> and the jump
  velocity, and an \<^verbatim>\<open>update\<close> called after it reads \<^verbatim>\<open>this.model.position\<close> and throws.
\<close>

theorem jump_on_unloaded_player:
  "model new_PlayerCharacter = None \<and>
   jump (Some new_BuildingSystem) new_PlayerCharacter =
     Inr (new_PlayerCharacter\<lparr>isJumping := True, jumpVelocity := Vector3 0 0.19 0\<rparr>) \<and>
   jump (Some new_BuildingSystem) new_PlayerCharacter \<noteq> Inr new_PlayerCharacter \<and>
   and_then (jump (Some new_BuildingSystem) new_PlayerCharacter)
     (PlayerCharacter_update (Some new_BuildingSystem) (1 / 60)) = Inl TypeError"
  by (simp add: frame_defs Let_def collides_no_buildings)

text \<open>
  C7, amended. While the model is \<^verbatim>\<open>null\<close>, \<^verbatim>\<open>move\<close> and \<^verbatim>\<open>rotate\<close> return at their own
  guard and leave the player as it is, \<^verbatim>\<open>update\<close> leaves a player that is not airborne as
  it is, and the frame loop, which calls the input controller (the only caller of
  \<^verbatim>\<open>jump\<close>) and \<^verbatim>\<open>update\<close> only once the model is set, leaves the input state and the
  player unchanged and raises no error, for any number of frames and whatever keys are held.
\<close>

theorem not_ready_noop:
  assumes "model p = None"
  shows "move bsys direction p = Inr p \<and> PlayerCharacter_rotate direction p = p \<and>
         (\<not> isJumping p \<longrightarrow> PlayerCharacter_update bsys deltaTime p = Inr p) \<and>
         player_frames n bsys deltaTime (ic, p) = Inr (ic, p)"
  using assms
  by (simp add: move_def PlayerCharacter_rotate_def PlayerCharacter_update_def
      player_frames_unloaded)

text \<open>
  C7 amended, on the freshly constructed player with the forward and jump keys held: the
  three methods and three frames of the loop change nothing.
\<close>

theorem not_ready_noop_witness:
  "move (Some new_BuildingSystem) 1 new_PlayerCharacter = Inr new_PlayerCharacter \<and>
   PlayerCharacter_rotate 1 new_PlayerCharacter = new_PlayerCharacter \<and>
   PlayerCharacter_update (Some new_BuildingSystem) (1 / 60) new_PlayerCharacter =
     Inr new_PlayerCharacter \<and>
   player_frames 3 (Some new_BuildingSystem) (1 / 60)
     (onKeyDown Space (onKeyDown KeyW new_InputController), new_PlayerCharacter) =
     Inr (onKeyDown Space (onKeyDown KeyW new_InputController), new_PlayerCharacter)"
proof -
  have m: "model new_PlayerCharacter = None" and g: "\<not> isJumping new_PlayerCharacter"
    by (simp_all add: new_PlayerCharacter_def)
  from not_ready_noop [OF m, of "Some new_BuildingSystem" 1 "1 / 60" 3
      "onKeyDown Space (onKeyDown KeyW new_InputController)"] g
  show ?thesis by simp
qed

subsection \<open>Running forward\<close>

text \<open>
  C8 as stated fails on the sign: the loaded player at the origin with yaw 0 and the forward
  key held for ten frames, with no building at all, ends at \<open>z = +1.5\<close>, which is 3 away
  from \<open>-1.5\<close>; its current action is Run.
\<close>

theorem ten_frames_end_at_positive_z:
  "player_frames 10 (Some new_BuildingSystem) (1 / 60)
     (onKeyDown KeyW new_InputController, load UNIV new_PlayerCharacter) =
     Inr (onKeyDown KeyW new_InputController, running_player) \<and>
   vec_z (position running_player) = 1.5 \<and>
   \<not> \<bar>vec_z (position running_player) - (- 1.5)\<bar> \<le> 0.001 \<and>
   currentAction running_player = Some Run"
proof -
  have "player_frames 10 (Some new_BuildingSystem) (1 / 60)
     (onKeyDown KeyW new_InputController, load UNIV new_PlayerCharacter) =
     Inr (onKeyDown KeyW new_InputController, running_player)"
    by (simp add: frame_defs collides_no_buildings Let_def eval_nat_numeral running_player_def)
  then show ?thesis by (simp add: running_player_def)
qed

text \<open>
  C8, amended. From the loaded player at the origin with yaw 0, ten frames with the forward
  key held, on any building system that the player's radius does not touch at the ten points
  \<open>(0, 2, 0.15 k)\<close> of the path, end at position \<open>(0, 2, 1.5)\<close> exactly, that is at
  \<open>z = +1.5\<close>, with Run as the current action.
\<close>

theorem forward_run:
  assumes "\<forall>z\<in>set forward_path. \<not> collides bsys (Vector3 0 2 z) radius"
  shows "player_frames 10 bsys deltaTime
           (onKeyDown KeyW new_InputController, load UNIV new_PlayerCharacter) =
         Inr (onKeyDown KeyW new_InputController, running_player) \<and>
         position running_player = Vector3 0 2 1.5 \<and> currentAction running_player = Some Run"
proof -
  from assms have h:
    "\<not> collides bsys (Vector3 0 2 (3/20)) radius" "\<not> collides bsys (Vector3 0 2 (3/10)) radius"
    "\<not> collides bsys (Vector3 0 2 (9/20)) radius" "\<not> collides bsys (Vector3 0 2 (3/5)) radius"
    "\<not> collides bsys (Vector3 0 2 (3/4)) radius" "\<not> collides bsys (Vector3 0 2 (9/10)) radius"
    "\<not> collides bsys (Vector3 0 2 (21/20)) radius" "\<not> collides bsys (Vector3 0 2 (6/5)) radius"
    "\<not> collides bsys (Vector3 0 2 (27/20)) radius" "\<not> collides bsys (Vector3 0 2 (3/2)) radius"
    by (simp_all add: forward_path_def)
  show ?thesis
    by (simp add: frame_defs Let_def eval_nat_numeral h running_player_def)
qed

text \<open>
  C8 amended, on \<open>sample_city\<close>, whose only building stands 25 units away along x: the path
  is clear and the run ends at \<open>z = 1.5\<close>.
\<close>

theorem forward_run_witness:
  "\<not> collides (Some sample_city) (Vector3 0 2 0.15) radius \<and>
   \<not> collides (Some sample_city) (Vector3 0 2 1.5) radius \<and>
   player_frames 10 (Some sample_city) (1 / 60)
     (onKeyDown KeyW new_InputController, load UNIV new_PlayerCharacter) =
     Inr (onKeyDown KeyW new_InputController, running_player) \<and>
   vec_z (position running_player) = 1.5"
proof -
  have c: "\<forall>z\<in>set forward_path. \<not> collides (Some sample_city) (Vector3 0 2 z) radius"
    by (simp add: forward_path_def collides_def radius_def checkCollision_sample_city
        power2_eq_square)
  from forward_run [OF c, of "1 / 60"] c show ?thesis
    by (simp add: forward_path_def)
qed

section \<open>Camera\<close>

lemma findSafe_loop_None:
  "\<forall>off\<in>set offs. checkCameraCollision cast bsys target (vec_add tp off) \<Longrightarrow>
   findSafe_loop cast bsys target tp offs = None"
  by (induction offs) auto

text \<open>
  C9. When the ray test reports every one of the five candidate offsets as obstructed,
  \<^verbatim>\<open>findSafeCameraPosition\<close> returns \<^verbatim>\<open>maxOffset\<close>, which the constructor sets to
  \<open>(0, 5, 12)\<close> and \<^verbatim>\<open>update\<close> never changes.
\<close>

theorem camera_all_obstructed:
  "((\<forall>off\<in>set (camera_candidates c).
       checkCameraCollision cast bsys target
         (vec_add (set_y (model_position target) (baseHeight c)) off)) \<longrightarrow>
      findSafeCameraPosition cast bsys target c = maxOffset c) \<and>
   length (camera_candidates c) = 5 \<and>
   maxOffset (new_CameraController cam) = Vector3 0 5 12 \<and>
   maxOffset (CameraController_update cast bsys target c) = maxOffset c"
  by (auto simp: findSafeCameraPosition_def Let_def findSafe_loop_None new_CameraController_def
      CameraController_update_def camera_candidates_def)

text \<open>
  C9, on a new camera behind a player at the origin in \<open>sample_city\<close>, with a ray test that
  reports a hit at distance 1 on every ray: all five candidates are obstructed and the
  offset found is \<open>(0, 5, 12)\<close>.
\<close>

theorem camera_all_obstructed_witness:
  "findSafeCameraPosition sample_cast (Some sample_city)
     \<lparr>model_position = Vector3 0 2 0, model_rotation_y = 0\<rparr>
     (new_CameraController (Vector3 0 5 8)) = Vector3 0 5 12"
proof -
  let ?t = "\<lparr>model_position = Vector3 0 2 0, model_rotation_y = 0\<rparr>"
  let ?c = "new_CameraController (Vector3 0 5 8)"
  have o: "\<forall>off\<in>set (camera_candidates ?c).
       checkCameraCollision sample_cast (Some sample_city) ?t
         (vec_add (set_y (model_position ?t) (baseHeight ?c)) off)"
    by (simp add: camera_candidates_def new_CameraController_def checkCameraCollision_def
        sample_cast_def sample_city_def Let_def distanceTo_def vec_length_def vec_sub_def
        vec_add_def set_y_def)
  from camera_all_obstructed [of ?c sample_cast "Some sample_city" ?t "Vector3 0 5 8"] o
  show ?thesis by (simp add: new_CameraController_def)
qed

end
